theory Spec2Isabelle
  imports Complex_Main
begin

section \<open>JavaScript values used by the container\<close>

text \<open>
  A JavaScript number is modelled as a rational extended by \<open>NaN\<close>: \<open>NaN\<close> is what
  arithmetic makes of \<open>undefined\<close>, the value of an array read outside the array.
  Rounding, infinities and the sign of zero of IEEE doubles are not modelled.
\<close>

datatype jsnum = Number rat | NaN

fun num_add :: "jsnum \<Rightarrow> jsnum \<Rightarrow> jsnum" where
  "num_add (Number a) (Number b) = Number (a + b)"
| "num_add _ _ = NaN"

fun num_sub :: "jsnum \<Rightarrow> jsnum \<Rightarrow> jsnum" where
  "num_sub (Number a) (Number b) = Number (a - b)"
| "num_sub _ _ = NaN"

fun num_neg :: "jsnum \<Rightarrow> jsnum" where
  "num_neg (Number a) = Number (- a)"
| "num_neg NaN = NaN"

text \<open>\<open>Math.min\<close> and \<open>Math.max\<close> return \<open>NaN\<close> when an argument is \<open>NaN\<close>.\<close>

fun Math_min :: "jsnum \<Rightarrow> jsnum \<Rightarrow> jsnum" where
  "Math_min (Number a) (Number b) = Number (min a b)"
| "Math_min _ _ = NaN"

fun Math_max :: "jsnum \<Rightarrow> jsnum \<Rightarrow> jsnum" where
  "Math_max (Number a) (Number b) = Number (max a b)"
| "Math_max _ _ = NaN"

text \<open>Comparisons with \<open>NaN\<close> are false.\<close>

fun num_gt :: "jsnum \<Rightarrow> jsnum \<Rightarrow> bool" where
  "num_gt (Number a) (Number b) = (b < a)"
| "num_gt _ _ = False"

fun num_lt :: "jsnum \<Rightarrow> jsnum \<Rightarrow> bool" where
  "num_lt (Number a) (Number b) = (a < b)"
| "num_lt _ _ = False"

text \<open>Truthiness of a number: \<open>0\<close> and \<open>NaN\<close> are falsy.\<close>

fun truthy :: "jsnum \<Rightarrow> bool" where
  "truthy (Number a) = (a \<noteq> 0)"
| "truthy NaN = False"

text \<open>\<open>undefined\<close> is \<open>None\<close>; used as a number it is \<open>NaN\<close>.\<close>

fun to_num :: "jsnum option \<Rightarrow> jsnum" where
  "to_num (Some a) = a"
| "to_num None = NaN"

text \<open>\<open>Math.round\<close> rounds to the nearest integer, a half upwards.\<close>

definition Math_round :: "rat \<Rightarrow> int" where
  "Math_round x = \<lfloor>x + 1 / 2\<rfloor>"

text \<open>An array read \<open>xs[i]\<close>: outside the array the value is \<open>undefined\<close>.\<close>

definition js_nth :: "'a list \<Rightarrow> int \<Rightarrow> 'a option" where
  "js_nth xs i = (if 0 \<le> i \<and> i < int (length xs) then Some (xs ! nat i) else None)"

text \<open>\<open>Array.prototype.findIndex\<close>: the first index whose element passes, else \<open>-1\<close>.\<close>

fun findIndexFrom :: "('a \<Rightarrow> bool) \<Rightarrow> int \<Rightarrow> 'a list \<Rightarrow> int" where
  "findIndexFrom p k [] = - 1"
| "findIndexFrom p k (x # xs) = (if p x then k else findIndexFrom p (k + 1) xs)"

definition findIndex :: "('a \<Rightarrow> bool) \<Rightarrow> 'a list \<Rightarrow> int" where
  "findIndex p xs = findIndexFrom p 0 xs"

text \<open>A tab name is a string; a string is truthy when it is not empty.\<close>

type_synonym TabName = string

fun truthy_name :: "TabName option \<Rightarrow> bool" where
  "truthy_name None = False"
| "truthy_name (Some n) = (n \<noteq> [])"

section \<open>Construction\<close>

text \<open>
  The function \<open>init\<close> (\<open>Container.tsx\<close>, lines 27 to 39).
  \<open>children\<close> is the sequence of nodes that \<open>React.Children.forEach\<close> visits (its length
  is \<open>React.Children.count\<close>): a React element, here a tab with its name, or a node
  that is no element (text, a number, an empty node).
\<close>

datatype child = Element TabName | NonElement

fun isValidElement :: "child \<Rightarrow> bool" where
  "isValidElement (Element n) = True"
| "isValidElement NonElement = False"

datatype error = Error string

fun forEach_valid :: "child list \<Rightarrow> error + unit" where
  "forEach_valid [] = Inr ()"
| "forEach_valid (c # cs) =
     (if \<not> isValidElement c
      then Inl (Error ''CollapsibleTabs children must be array of React Elements.'')
      else forEach_valid cs)"

definition init :: "child list \<Rightarrow> error + bool" where
  "init children =
     (if length children = 0
      then Inl (Error ''CollapsibleTabs must have at least one child.'')
      else (case forEach_valid children of Inl e \<Rightarrow> Inl e | Inr _ \<Rightarrow> Inr True))"

text \<open>
  The properties of the container that the synchronisation logic reads.
  \<open>onIndexChange\<close> says whether the callback is supplied; \<open>windowWidth\<close> is the
  width that \<open>useWindowDimensions\<close> reports.
\<close>

record props =
  initialTabName :: "TabName option"
  initialHeaderHeight :: "rat option"
  minHeaderHeight :: rat
  diffClampEnabled :: bool
  onIndexChange :: bool
  windowWidth :: rat

text \<open>
  What a pane's ref points to: a view with \<open>scrollTo\<close>, one with \<open>scrollToOffset\<close>
  only, or something else.
\<close>

datatype paneRef = ScrollViewRef | FlatListRef | OtherRef

text \<open>
  The shared values and the React state of one container. \<open>refMap n = None\<close> means
  that there is no ref for the key \<open>n\<close> or that its \<open>current\<close> is null;
  \<open>containerRef\<close> says whether the pager's ref is set. What only the views read
  (\<open>containerHeight\<close>, \<open>tabBarHeight\<close>, \<open>pagerOpacity\<close>, \<open>afterRender\<close>,
  \<open>data\<close>) is left out.
\<close>

record state =
  headerHeight :: "rat option"
  isScrolling :: jsnum
  scrollYCurrent :: jsnum
  scrollY :: "jsnum list"
  contentHeight :: jsnum
  offset :: jsnum
  accScrollY :: jsnum
  oldAccScrollY :: jsnum
  accDiffClamp :: jsnum
  tabNames :: "TabName list"
  index :: int
  scrollX :: rat
  isSwiping :: bool
  isSnapping :: bool
  snappingTo :: jsnum
  isGliding :: bool
  endDrag :: jsnum
  calculateNextOffset :: int
  refMap :: "string \<Rightarrow> paneRef option"
  containerRef :: bool

text \<open>
  The first render (lines 88 to 140). \<open>tabNamesArray\<close> is what \<open>useTabProps\<close> (in \<open>./hooks\<close>) returns
  for the children; the refs start unset.
\<close>

definition Container :: "props \<Rightarrow> child list \<Rightarrow> TabName list \<Rightarrow> error + state" where
  "Container P children tabNamesArray =
     (case init children of
        Inl e \<Rightarrow> Inl e
      | Inr firstRender \<Rightarrow>
          (let i = (if truthy_name (initialTabName P)
                    then findIndex (\<lambda>n. Some n = initialTabName P) tabNamesArray
                    else 0)
           in Inr \<lparr> headerHeight = initialHeaderHeight P,
                    isScrolling = Number 0,
                    scrollYCurrent = Number 0,
                    scrollY = map (\<lambda>_. Number 0) tabNamesArray,
                    contentHeight = Number 0,
                    offset = Number 0,
                    accScrollY = Number 0,
                    oldAccScrollY = Number 0,
                    accDiffClamp = Number 0,
                    tabNames = tabNamesArray,
                    index = i,
                    scrollX = of_int i * windowWidth P,
                    isSwiping = False,
                    isSnapping = False,
                    snappingTo = Number 0,
                    isGliding = False,
                    endDrag = Number 0,
                    calculateNextOffset = i,
                    refMap = (\<lambda>_. None),
                    containerRef = False \<rparr>))"

section \<open>Derived values\<close>

text \<open>
  \<open>focusedTab\<close> (lines 135 to 137), \<open>headerScrollDistance\<close> (141 to 143) and
  \<open>indexDecimal\<close> (154 to 156). The division is the program's for a window width other
  than 0.
\<close>

definition focusedTab :: "state \<Rightarrow> TabName option" where
  "focusedTab s = js_nth (tabNames s) (index s)"

definition headerScrollDistance :: "props \<Rightarrow> state \<Rightarrow> rat" where
  "headerScrollDistance P s =
     (case headerHeight s of Some h \<Rightarrow> h - minHeaderHeight P | None \<Rightarrow> 0)"

definition indexDecimal :: "props \<Rightarrow> state \<Rightarrow> rat" where
  "indexDecimal P s = scrollX s / windowWidth P"

text \<open>The header's \<open>translateY\<close> (\<open>stylez\<close>, lines 310 to 320) and the header's layout
  callback (322 to 331).\<close>

definition stylez :: "props \<Rightarrow> state \<Rightarrow> jsnum" where
  "stylez P s =
     (if diffClampEnabled P
      then num_neg (accDiffClamp s)
      else num_neg (Math_min (scrollYCurrent s) (Number (headerScrollDistance P s))))"

definition getHeaderHeight :: "rat \<Rightarrow> state \<Rightarrow> state" where
  "getHeaderHeight height s =
     (if headerHeight s \<noteq> Some height then s\<lparr>headerHeight := Some height\<rparr> else s)"

section \<open>Reactions\<close>

text \<open>The pending target while swiping, the pane the pager position rounds to (lines 215
  to 228).\<close>

definition swipeReaction :: "props \<Rightarrow> state \<Rightarrow> state" where
  "swipeReaction P s =
     (let nextIndex = (if isSwiping s then Some (Math_round (indexDecimal P s)) else None)
      in case nextIndex of
           None \<Rightarrow> s
         | Some n \<Rightarrow> (if n \<noteq> index s then s\<lparr>calculateNextOffset := n\<rparr> else s))"

text \<open>
  The payload of \<open>onIndexChange\<close>; its field \<open>index\<close> is \<open>newIndex\<close> here, the
  name \<open>index\<close> being the shared value's.
\<close>

record indexChange =
  prevIndex :: int
  newIndex :: int
  prevTabName :: "TabName option"
  tabName :: "TabName option"

text \<open>
  The commit: the reaction to \<open>calculateNextOffset\<close> (lines 230 to 250). It returns the new state and
  the calls of \<open>onIndexChange\<close> it schedules.
\<close>

definition commitReaction :: "props \<Rightarrow> state \<Rightarrow> state \<times> indexChange list" where
  "commitReaction P s =
     (let i = calculateNextOffset s
      in if i \<noteq> index s
         then (s\<lparr>offset :=
                    num_add (num_sub (to_num (js_nth (scrollY s) (index s)))
                                     (to_num (js_nth (scrollY s) i)))
                            (offset s),
                  index := i\<rparr>,
               if onIndexChange P
               then [\<lparr>prevIndex = index s, newIndex = i,
                      prevTabName = js_nth (tabNames s) (index s),
                      tabName = js_nth (tabNames s) i\<rparr>]
               else [])
         else (s, []))"

text \<open>The reaction to \<open>accScrollY\<close> that maintains \<open>accDiffClamp\<close> (lines 269 to 286).\<close>

definition diffClampReaction :: "props \<Rightarrow> state \<Rightarrow> state" where
  "diffClampReaction P s =
     (let delta = (if diffClampEnabled P
                   then num_sub (accScrollY s) (oldAccScrollY s) else Number 0)
      in if truthy delta
         then (let nextValue = num_add (accDiffClamp s) delta
               in if num_gt delta (Number 0)
                  then s\<lparr>accDiffClamp :=
                           Math_min (Number (headerScrollDistance P s)) nextValue\<rparr>
                  else if num_lt delta (Number 0)
                  then s\<lparr>accDiffClamp := Math_max (Number 0) nextValue\<rparr>
                  else s)
         else s)"

text \<open>The pager's scroll handler (lines 252 to 266).\<close>

definition onScroll :: "rat \<Rightarrow> state \<Rightarrow> state" where
  "onScroll x s = s\<lparr>scrollX := x\<rparr>"

definition onBeginDrag :: "state \<Rightarrow> state" where
  "onBeginDrag s = s\<lparr>isSwiping := True\<rparr>"

definition onMomentumEnd :: "state \<Rightarrow> state" where
  "onMomentumEnd s = s\<lparr>isSwiping := False\<rparr>"

section \<open>Tab press and the imperative handle\<close>

text \<open>The calls made on the views: a pane scrolled to its top, the pager moved.\<close>

datatype command =
    PaneScrollTo string rat rat bool
  | PaneScrollToOffset string rat bool
  | PagerScrollToIndex int bool

text \<open>
  \<open>onTabPress\<close> (lines 372 to 400). The property key of \<open>refMap[name]\<close> for the name
  \<open>undefined\<close> is \<open>"undefined"\<close>. The function runs on the JavaScript thread: it reads
  \<open>focusedTab\<close> before the commit, which the write to \<open>calculateNextOffset\<close> triggers, has
  run.
\<close>

fun refKey :: "TabName option \<Rightarrow> string" where
  "refKey (Some n) = n"
| "refKey None = ''undefined''"

definition onTabPress :: "TabName option \<Rightarrow> state \<Rightarrow> state \<times> command list" where
  "onTabPress name s =
     (if \<not> truthy (isScrolling s) \<and> \<not> isGliding s
      then (let i = findIndex (\<lambda>n. Some n = name) (tabNames s);
                s' = s\<lparr>calculateNextOffset := i\<rparr>
            in if name = focusedTab s'
               then (case refMap s' (refKey name) of
                       Some ScrollViewRef \<Rightarrow> (s', [PaneScrollTo (refKey name) 0 0 True])
                     | Some FlatListRef \<Rightarrow> (s', [PaneScrollToOffset (refKey name) 0 True])
                     | _ \<Rightarrow> (s', []))
               else (s', if containerRef s' then [PagerScrollToIndex i True] else []))
      else (s, []))"

text \<open>
  The effect that recovers from an index beyond the tab names of the render (lines 402
  to 406), and the imperative handle (410 to 433).
\<close>

definition recover :: "TabName list \<Rightarrow> state \<Rightarrow> state \<times> command list" where
  "recover tabNamesArray s =
     (if index s \<ge> int (length tabNamesArray)
      then onTabPress (js_nth tabNamesArray (int (length tabNamesArray) - 1)) s
      else (s, []))"

definition setIndex :: "int \<Rightarrow> state \<Rightarrow> bool \<times> state \<times> command list" where
  "setIndex i s =
     (if truthy (isScrolling s) \<or> isGliding s then (False, s, [])
      else (let name = js_nth (tabNames s) i
            in (True, onTabPress name s)))"

definition jumpToTab :: "TabName \<Rightarrow> state \<Rightarrow> bool \<times> state \<times> command list" where
  "jumpToTab name s =
     (if truthy (isScrolling s) \<or> isGliding s then (False, s, [])
      else (True, onTabPress (Some name) s))"

definition getFocusedTab :: "state \<Rightarrow> TabName option" where
  "getFocusedTab s = js_nth (tabNames s) (index s)"

definition getCurrentIndex :: "state \<Rightarrow> int" where
  "getCurrentIndex s = index s"

section \<open>Events\<close>

text \<open>
  The scroll handlers of the panes (in \<open>./hooks\<close>) are not part of this file and are
  taken as a parameter: a pane write is any new content for the shared values they
  own. \<open>accDiffClamp\<close>, \<open>offset\<close>, \<open>index\<close> and \<open>calculateNextOffset\<close> are written by
  the container's own reactions.
\<close>

record paneWrite =
  w_isScrolling :: jsnum
  w_isGliding :: bool
  w_isSnapping :: bool
  w_snappingTo :: jsnum
  w_endDrag :: jsnum
  w_contentHeight :: jsnum
  w_scrollYCurrent :: jsnum
  w_scrollY :: "jsnum list"
  w_accScrollY :: jsnum
  w_oldAccScrollY :: jsnum

definition applyPaneWrite :: "paneWrite \<Rightarrow> state \<Rightarrow> state" where
  "applyPaneWrite w s =
     s\<lparr>isScrolling := w_isScrolling w,
       isGliding := w_isGliding w,
       isSnapping := w_isSnapping w,
       snappingTo := w_snappingTo w,
       endDrag := w_endDrag w,
       contentHeight := w_contentHeight w,
       scrollYCurrent := w_scrollYCurrent w,
       scrollY := w_scrollY w,
       accScrollY := w_accScrollY w,
       oldAccScrollY := w_oldAccScrollY w\<rparr>"

text \<open>
  What can happen to a rendered container. Each event writes its shared values and
  then runs the reactions that read them: the swipe reaction and the commit after the
  pager's events, the commit after a tab press or a command, the diff-clamp reaction
  after a pane's scroll.
\<close>

datatype event =
    PagerScroll rat
  | PagerBeginDrag
  | PagerMomentumEnd
  | TabPress TabName
  | SetIndex int
  | JumpToTab TabName
  | HeaderLayout rat
  | PaneScroll paneWrite
  | SetRef string "paneRef option"
  | SetContainerRef bool

fun step :: "props \<Rightarrow> event \<Rightarrow> state \<Rightarrow> state" where
  "step P (PagerScroll x) s = fst (commitReaction P (swipeReaction P (onScroll x s)))"
| "step P PagerBeginDrag s = fst (commitReaction P (swipeReaction P (onBeginDrag s)))"
| "step P PagerMomentumEnd s = fst (commitReaction P (swipeReaction P (onMomentumEnd s)))"
| "step P (TabPress n) s = fst (commitReaction P (fst (onTabPress (Some n) s)))"
| "step P (SetIndex i) s = fst (commitReaction P (fst (snd (setIndex i s))))"
| "step P (JumpToTab n) s = fst (commitReaction P (fst (snd (jumpToTab n s))))"
| "step P (HeaderLayout h) s = getHeaderHeight h s"
| "step P (PaneScroll w) s = diffClampReaction P (applyPaneWrite w s)"
| "step P (SetRef n r) s = s\<lparr>refMap := (refMap s)(n := r)\<rparr>"
| "step P (SetContainerRef b) s = s\<lparr>containerRef := b\<rparr>"

fun run :: "props \<Rightarrow> event list \<Rightarrow> state \<Rightarrow> state" where
  "run P [] s = s"
| "run P (e # es) s = run P es (step P e s)"

text \<open>An event that leaves the header's measured height alone.\<close>

fun keepsHeader :: "event \<Rightarrow> bool" where
  "keepsHeader (HeaderLayout h) = False"
| "keepsHeader _ = True"

text \<open>
  An event that leaves the current scroll offset and the header's measured height
  alone.
\<close>

fun leavesScroll :: "event \<Rightarrow> bool" where
  "leavesScroll (PaneScroll w) = False"
| "leavesScroll (HeaderLayout h) = False"
| "leavesScroll _ = True"

text \<open>The index is a pane of the tab names.\<close>

definition validIndex :: "state \<Rightarrow> bool" where
  "validIndex s = (0 \<le> index s \<and> index s < int (length (tabNames s)))"

definition isPane :: "state \<Rightarrow> int \<Rightarrow> bool" where
  "isPane s i = (0 \<le> i \<and> i < int (length (tabNames s)))"

definition gated :: "state \<Rightarrow> bool" where
  "gated s = (truthy (isScrolling s) \<or> isGliding s)"

text \<open>
  Events that name a pane: a pager position that rounds to a pane (on a window of
  positive width), a tab name of the tab set, an index of a pane.
\<close>

fun namesPane :: "props \<Rightarrow> state \<Rightarrow> event \<Rightarrow> bool" where
  "namesPane P s (PagerScroll x) =
     (\<not> isSwiping s \<or> (0 < windowWidth P \<and> isPane s (Math_round (x / windowWidth P))))"
| "namesPane P s PagerBeginDrag =
     (0 < windowWidth P \<and> isPane s (Math_round (scrollX s / windowWidth P)))"
| "namesPane P s (TabPress n) = (gated s \<or> n \<in> set (tabNames s))"
| "namesPane P s (JumpToTab n) = (gated s \<or> n \<in> set (tabNames s))"
| "namesPane P s (SetIndex i) = (gated s \<or> isPane s i)"
| "namesPane P s _ = True"

fun allNamePanes :: "props \<Rightarrow> state \<Rightarrow> event list \<Rightarrow> bool" where
  "allNamePanes P s [] = True"
| "allNamePanes P s (e # es) = (namesPane P s e \<and> allNamePanes P (step P e s) es)"

section \<open>Invariants and examples\<close>

text \<open>The diff-clamp accumulator is a number between \<open>0\<close> and \<open>D\<close>.\<close>

definition clampedTo :: "rat \<Rightarrow> state \<Rightarrow> bool" where
  "clampedTo D s = (case accDiffClamp s of Number v \<Rightarrow> 0 \<le> v \<and> v \<le> D | NaN \<Rightarrow> False)"

text \<open>No commit is pending and the index is a pane.\<close>

definition settled :: "state \<Rightarrow> bool" where
  "settled s = (validIndex s \<and> calculateNextOffset s = index s)"

text \<open>
  A container of two panes \<open>A\<close> and \<open>B\<close> with a header of height 100: pane \<open>A\<close> is
  focused and scrolled to 120, pane \<open>B\<close> rests at 40. The pane write scrolls \<open>A\<close>
  down by 30.
\<close>

definition exampleProps :: props where
  "exampleProps =
     \<lparr> initialTabName = None, initialHeaderHeight = Some 100, minHeaderHeight = 0,
       diffClampEnabled = False, onIndexChange = True, windowWidth = 300 \<rparr>"

definition exampleState :: state where
  "exampleState =
     \<lparr> headerHeight = Some 100,
       isScrolling = Number 0,
       scrollYCurrent = Number 120,
       scrollY = [Number 120, Number 40],
       contentHeight = Number 0,
       offset = Number 0,
       accScrollY = Number 120,
       oldAccScrollY = Number 120,
       accDiffClamp = Number 0,
       tabNames = [''A'', ''B''],
       index = 0,
       scrollX = 0,
       isSwiping = False,
       isSnapping = False,
       snappingTo = Number 0,
       isGliding = False,
       endDrag = Number 0,
       calculateNextOffset = 0,
       refMap = (\<lambda>_. None)(''A'' := Some ScrollViewRef, ''B'' := Some FlatListRef),
       containerRef = True \<rparr>"

definition examplePaneWrite :: paneWrite where
  "examplePaneWrite =
     \<lparr> w_isScrolling = Number 1, w_isGliding = False, w_isSnapping = False,
       w_snappingTo = Number 0, w_endDrag = Number 0, w_contentHeight = Number 900,
       w_scrollYCurrent = Number 150, w_scrollY = [Number 150, Number 40],
       w_accScrollY = Number 150, w_oldAccScrollY = Number 120 \<rparr>"

section \<open>Array search\<close>

lemma findIndexFrom_none: "(\<forall>x \<in> set xs. \<not> p x) \<Longrightarrow> findIndexFrom p k xs = - 1"
  by (induction xs arbitrary: k) auto

lemma findIndexFrom_range:
  "\<exists>x \<in> set xs. p x \<Longrightarrow> k \<le> findIndexFrom p k xs \<and> findIndexFrom p k xs < k + int (length xs)"
proof (induction xs arbitrary: k)
  case Nil
  then show ?case by simp
next
  case (Cons x xs)
  show ?case
  proof (cases "p x")
    case True
    then show ?thesis by simp
  next
    case False
    with Cons.prems have "\<exists>y \<in> set xs. p y" by auto
    from Cons.IH [OF this, of "k + 1"] False show ?thesis by simp
  qed
qed

lemma findIndexFrom_nth:
  "distinct xs \<Longrightarrow> i < length xs \<Longrightarrow> findIndexFrom (\<lambda>n. Some n = Some (xs ! i)) k xs = k + int i"
proof (induction xs arbitrary: k i)
  case Nil
  then show ?case by simp
next
  case (Cons x xs)
  show ?case
  proof (cases i)
    case 0
    then show ?thesis by simp
  next
    case (Suc j)
    with Cons.prems have j: "j < length xs" and d: "distinct xs" and ne: "x \<noteq> xs ! j"
      by auto
    from Cons.IH [OF d j, of "k + 1"] ne Suc show ?thesis by auto
  qed
qed

lemma findIndex_none: "name \<notin> set xs \<Longrightarrow> findIndex (\<lambda>n. Some n = Some name) xs = - 1"
  unfolding findIndex_def by (rule findIndexFrom_none) auto

lemma findIndex_undefined: "findIndex (\<lambda>n. Some n = None) xs = - 1"
  unfolding findIndex_def by (rule findIndexFrom_none) auto

lemma findIndex_member:
  "name \<in> set xs \<Longrightarrow> 0 \<le> findIndex (\<lambda>n. Some n = Some name) xs
      \<and> findIndex (\<lambda>n. Some n = Some name) xs < int (length xs)"
  unfolding findIndex_def using findIndexFrom_range [of xs "\<lambda>n. Some n = Some name" 0] by auto

lemma findIndex_nth:
  "distinct xs \<Longrightarrow> 0 \<le> i \<Longrightarrow> i < int (length xs) \<Longrightarrow>
     findIndex (\<lambda>n. Some n = js_nth xs i) xs = i"
  unfolding findIndex_def js_nth_def using findIndexFrom_nth [of xs "nat i" 0] by auto

section \<open>Lemmas about the operations\<close>

lemma forEach_valid_Inr: "(\<exists>u. forEach_valid cs = Inr u) \<longleftrightarrow> (\<forall>c \<in> set cs. isValidElement c)"
  by (induction cs) auto

lemma init_Inr: "(\<exists>b. init cs = Inr b) \<longleftrightarrow> (cs \<noteq> [] \<and> (\<forall>c \<in> set cs. isValidElement c))"
proof (cases "forEach_valid cs")
  case (Inl e)
  with forEach_valid_Inr [of cs] show ?thesis by (auto simp: init_def)
next
  case (Inr u)
  with forEach_valid_Inr [of cs] show ?thesis by (auto simp: init_def)
qed

lemma Container_Inr:
  "(\<exists>s. Container P cs names = Inr s) \<longleftrightarrow> (cs \<noteq> [] \<and> (\<forall>c \<in> set cs. isValidElement c))"
proof -
  have "(\<exists>s. Container P cs names = Inr s) \<longleftrightarrow> (\<exists>b. init cs = Inr b)"
    by (cases "init cs") (simp_all add: Container_def Let_def)
  then show ?thesis by (simp add: init_Inr)
qed

lemma clampedTo_iff:
  "clampedTo D s \<longleftrightarrow> (\<exists>v. accDiffClamp s = Number v \<and> 0 \<le> v \<and> v \<le> D)"
  by (cases "accDiffClamp s") (simp_all add: clampedTo_def)

lemma diffClampReaction_clamped:
  assumes "headerScrollDistance P s = D" and "clampedTo D s"
  shows "clampedTo D (diffClampReaction P s)"
proof -
  from assms(2) obtain v where v: "accDiffClamp s = Number v" "0 \<le> v" "v \<le> D"
    by (auto simp: clampedTo_iff)
  show ?thesis
  proof (cases "if diffClampEnabled P then num_sub (accScrollY s) (oldAccScrollY s) else Number 0")
    case NaN
    then show ?thesis using assms(2) by (simp add: diffClampReaction_def)
  next
    case (Number d)
    then show ?thesis using v assms(1)
      by (auto simp: diffClampReaction_def clampedTo_iff Let_def min_def max_def)
  qed
qed

lemma diffClampReaction_update:
  assumes "diffClampEnabled P" and "headerScrollDistance P s = D"
    and "accDiffClamp s = Number v" and "0 \<le> v" and "v \<le> D"
    and "accScrollY s = Number a" and "oldAccScrollY s = Number b"
  shows "accDiffClamp (diffClampReaction P s) = Number (max 0 (min D (v + (a - b))))"
  using assms by (auto simp: diffClampReaction_def Let_def min_def max_def)

lemma diffClampReaction_other [simp]:
  "headerHeight (diffClampReaction P s) = headerHeight s"
  "tabNames (diffClampReaction P s) = tabNames s"
  "index (diffClampReaction P s) = index s"
  by (simp_all add: diffClampReaction_def Let_def)

lemma commitReaction_other [simp]:
  "headerHeight (fst (commitReaction P s)) = headerHeight s"
  "accDiffClamp (fst (commitReaction P s)) = accDiffClamp s"
  "tabNames (fst (commitReaction P s)) = tabNames s"
  "index (fst (commitReaction P s)) = calculateNextOffset s"
  by (simp_all add: commitReaction_def Let_def)

lemma swipeReaction_other [simp]:
  "headerHeight (swipeReaction P s) = headerHeight s"
  "accDiffClamp (swipeReaction P s) = accDiffClamp s"
  "tabNames (swipeReaction P s) = tabNames s"
  "index (swipeReaction P s) = index s"
  by (simp_all add: swipeReaction_def Let_def split: option.splits)

lemma onTabPress_other [simp]:
  "headerHeight (fst (onTabPress n s)) = headerHeight s"
  "accDiffClamp (fst (onTabPress n s)) = accDiffClamp s"
  "tabNames (fst (onTabPress n s)) = tabNames s"
  "index (fst (onTabPress n s)) = index s"
  by (simp_all add: onTabPress_def Let_def split: option.splits paneRef.splits)

lemma onTabPress_target:
  "calculateNextOffset (fst (onTabPress n s)) =
     (if gated s then calculateNextOffset s else findIndex (\<lambda>m. Some m = n) (tabNames s))"
  by (simp add: onTabPress_def gated_def Let_def split: option.splits paneRef.splits)

lemma step_keeps:
  "keepsHeader e \<Longrightarrow> headerHeight (step P e s) = headerHeight s"
  "tabNames (step P e s) = tabNames s"
  by (cases e; simp add: onScroll_def onBeginDrag_def onMomentumEnd_def setIndex_def
        jumpToTab_def getHeaderHeight_def applyPaneWrite_def)+

lemma step_clamped:
  assumes "keepsHeader e" and "headerScrollDistance P s = D" and "clampedTo D s"
  shows "clampedTo D (step P e s)"
proof (cases e)
  case (PaneScroll w)
  have "headerScrollDistance P (applyPaneWrite w s) = D"
    using assms(2) by (simp add: headerScrollDistance_def applyPaneWrite_def)
  moreover have "clampedTo D (applyPaneWrite w s)"
    using assms(3) by (simp add: clampedTo_iff applyPaneWrite_def)
  ultimately show ?thesis using PaneScroll by (simp add: diffClampReaction_clamped)
qed (use assms in \<open>simp_all add: clampedTo_iff onScroll_def onBeginDrag_def onMomentumEnd_def
        setIndex_def jumpToTab_def\<close>)

lemma run_clamped:
  "list_all keepsHeader es \<Longrightarrow> headerScrollDistance P s = D \<Longrightarrow> clampedTo D s \<Longrightarrow>
     clampedTo D (run P es s) \<and> headerScrollDistance P (run P es s) = D"
proof (induction es arbitrary: s)
  case Nil
  then show ?case by simp
next
  case (Cons e es)
  from Cons.prems have k: "keepsHeader e" and ks: "list_all keepsHeader es" by simp_all
  have "headerScrollDistance P (step P e s) = D"
    using Cons.prems(2) step_keeps(1) [OF k, of P s] by (simp add: headerScrollDistance_def)
  moreover have "clampedTo D (step P e s)"
    using k Cons.prems(2,3) by (rule step_clamped)
  ultimately show ?case using Cons.IH [OF ks] by simp
qed

lemma commitReaction_target [simp]:
  "calculateNextOffset (fst (commitReaction P s)) = calculateNextOffset s"
  by (simp add: commitReaction_def Let_def)

lemma swipeReaction_target:
  "calculateNextOffset (swipeReaction P s) =
     (if isSwiping s \<and> Math_round (scrollX s / windowWidth P) \<noteq> index s
      then Math_round (scrollX s / windowWidth P) else calculateNextOffset s)"
  by (simp add: swipeReaction_def indexDecimal_def Let_def)

lemma step_settled:
  assumes "settled s" and "namesPane P s e"
  shows "settled (step P e s)"
proof (cases e)
  case (PagerScroll x)
  then show ?thesis using assms
    by (auto simp: settled_def validIndex_def isPane_def swipeReaction_target onScroll_def)
next
  case PagerBeginDrag
  then show ?thesis using assms
    by (auto simp: settled_def validIndex_def isPane_def swipeReaction_target onBeginDrag_def)
next
  case PagerMomentumEnd
  then show ?thesis using assms
    by (auto simp: settled_def validIndex_def swipeReaction_target onMomentumEnd_def)
next
  case (TabPress n)
  show ?thesis
  proof (cases "gated s")
    case True
    then show ?thesis using TabPress assms(1)
      by (simp add: settled_def validIndex_def onTabPress_target)
  next
    case False
    with TabPress assms(2) have "n \<in> set (tabNames s)" by simp
    from findIndex_member [OF this] False TabPress show ?thesis
      by (simp add: settled_def validIndex_def onTabPress_target)
  qed
next
  case (JumpToTab n)
  show ?thesis
  proof (cases "gated s")
    case True
    then show ?thesis using JumpToTab assms(1)
      by (simp add: settled_def validIndex_def gated_def jumpToTab_def)
  next
    case False
    with JumpToTab assms(2) have "n \<in> set (tabNames s)" by simp
    from findIndex_member [OF this] False JumpToTab show ?thesis
      by (simp add: settled_def validIndex_def jumpToTab_def gated_def onTabPress_target)
  qed
next
  case (SetIndex i)
  show ?thesis
  proof (cases "gated s")
    case True
    then show ?thesis using SetIndex assms(1)
      by (simp add: settled_def validIndex_def gated_def setIndex_def)
  next
    case False
    with SetIndex assms(2) have i: "0 \<le> i" "i < int (length (tabNames s))"
      by (simp_all add: isPane_def)
    then have "tabNames s ! nat i \<in> set (tabNames s)" by simp
    from findIndex_member [OF this] False SetIndex i show ?thesis
      by (simp add: settled_def validIndex_def setIndex_def gated_def onTabPress_target js_nth_def)
  qed
next
  case (HeaderLayout h)
  then show ?thesis using assms(1) by (simp add: settled_def validIndex_def getHeaderHeight_def)
next
  case (PaneScroll w)
  then show ?thesis using assms(1)
    by (simp add: settled_def validIndex_def applyPaneWrite_def diffClampReaction_def Let_def)
next
  case (SetRef n r)
  then show ?thesis using assms(1) by (simp add: settled_def validIndex_def)
next
  case (SetContainerRef b)
  then show ?thesis using assms(1) by (simp add: settled_def validIndex_def)
qed

lemma run_settled:
  "settled s \<Longrightarrow> allNamePanes P s es \<Longrightarrow>
     settled (run P es s) \<and> tabNames (run P es s) = tabNames s"
proof (induction es arbitrary: s)
  case Nil
  then show ?case by simp
next
  case (Cons e es)
  from Cons.prems have "settled (step P e s)" by (simp add: step_settled)
  with Cons.IH [of "step P e s"] Cons.prems(2) show ?case by (simp add: step_keeps(2))
qed

lemma Container_settled:
  assumes "Container P children names = Inr s" and "names \<noteq> []"
    and "\<not> truthy_name (initialTabName P) \<or> (\<exists>n \<in> set names. initialTabName P = Some n)"
  shows "settled s \<and> tabNames s = names"
proof (cases "init children")
  case (Inl e)
  with assms(1) show ?thesis by (simp add: Container_def)
next
  case (Inr b)
  show ?thesis
  proof (cases "truthy_name (initialTabName P)")
    case False
    with Inr assms(1,2) show ?thesis by (auto simp: Container_def settled_def validIndex_def)
  next
    case True
    with assms(3) obtain n where n: "n \<in> set names" "initialTabName P = Some n" by auto
    from findIndex_member [OF n(1)] Inr assms(1) True n(2) show ?thesis
      by (auto simp: Container_def settled_def validIndex_def Let_def)
  qed
qed

lemma recover_last:
  assumes "int (length names) \<le> index s" and "names \<noteq> []" and "\<not> gated s"
    and "take (length names) (tabNames s) = names" and "distinct (tabNames s)"
  shows "index (fst (commitReaction P (fst (recover names s)))) = int (length names) - 1"
proof -
  let ?k = "int (length names) - 1"
  have len: "length names \<le> length (tabNames s)"
    using assms(4) by (metis length_take min.cobounded1)
  have k: "0 \<le> ?k" "?k < int (length (tabNames s))" using assms(2) len by (cases names; simp)+
  have "names ! nat ?k = tabNames s ! nat ?k"
    using assms(2,4) by (metis diff_less length_greater_0_conv nat_int nth_take of_nat_1 of_nat_diff less_one Suc_leI One_nat_def zero_less_one)
  then have "js_nth names ?k = js_nth (tabNames s) ?k"
    using k assms(2) by (simp add: js_nth_def)
  with findIndex_nth [OF assms(5) k] 
  have "findIndex (\<lambda>n. Some n = js_nth names ?k) (tabNames s) = ?k" by simp
  then show ?thesis using assms(1,3) by (simp add: recover_def onTabPress_target)
qed

lemma commitReaction_scroll [simp]:
  "scrollYCurrent (fst (commitReaction P s)) = scrollYCurrent s"
  "scrollY (fst (commitReaction P s)) = scrollY s"
  by (simp_all add: commitReaction_def Let_def)

lemma swipeReaction_scroll [simp]:
  "scrollYCurrent (swipeReaction P s) = scrollYCurrent s"
  by (simp add: swipeReaction_def Let_def split: option.splits)

lemma onTabPress_scroll [simp]:
  "scrollYCurrent (fst (onTabPress n s)) = scrollYCurrent s"
  by (simp add: onTabPress_def Let_def split: option.splits paneRef.splits)

lemma step_leavesScroll:
  assumes "leavesScroll e"
  shows "scrollYCurrent (step P e s) = scrollYCurrent s"
    and "headerHeight (step P e s) = headerHeight s"
    and "accDiffClamp (step P e s) = accDiffClamp s"
  using assms
  by (cases e; simp add: onScroll_def onBeginDrag_def onMomentumEnd_def setIndex_def
        jumpToTab_def)+

lemma stylez_cong:
  "scrollYCurrent t = scrollYCurrent s \<Longrightarrow> headerHeight t = headerHeight s \<Longrightarrow>
     accDiffClamp t = accDiffClamp s \<Longrightarrow> stylez P t = stylez P s"
  by (simp add: stylez_def headerScrollDistance_def)

section \<open>The commit\<close>

text \<open>
  C1. A commit to a target \<open>i\<close> other than the index, both naming stored scroll offsets
  \<open>a\<close> (current pane) and \<open>b\<close> (pane \<open>i\<close>): the offset accumulator grows by the carry
  \<open>a - b\<close>, the index becomes \<open>i\<close>, and \<open>onIndexChange\<close>, when it is supplied, is called
  once, with the index and the names from before the commit. The header's translation
  is the same before and after the commit.
\<close>

theorem commit_carries_offset:
  assumes "calculateNextOffset s = i" and "i \<noteq> index s"
    and "js_nth (scrollY s) (index s) = Some (Number a)"
    and "js_nth (scrollY s) i = Some (Number b)"
    and "offset s = Number c"
  shows "commitReaction P s =
           (s\<lparr>offset := Number (c + (a - b)), index := i\<rparr>,
            if onIndexChange P
            then [\<lparr>prevIndex = index s, newIndex = i,
                   prevTabName = js_nth (tabNames s) (index s),
                   tabName = js_nth (tabNames s) i\<rparr>]
            else [])
         \<and> stylez P (fst (commitReaction P s)) = stylez P s"
  using assms by (simp add: commitReaction_def Let_def stylez_def headerScrollDistance_def add.commute)

text \<open>
  Pane \<open>A\<close> at 120 and pane \<open>B\<close> at 40, header distance 100: the commit from \<open>A\<close> to \<open>B\<close>
  adds 80 to the accumulator, notifies once, and the translation stays at \<open>-100\<close>.
\<close>

theorem commit_carries_offset_witness:
  "(let s = exampleState\<lparr>calculateNextOffset := 1\<rparr>
    in calculateNextOffset s = 1 \<and> 1 \<noteq> index s
     \<and> js_nth (scrollY s) (index s) = Some (Number 120)
     \<and> js_nth (scrollY s) 1 = Some (Number 40)
     \<and> offset s = Number 0
     \<and> commitReaction exampleProps s =
          (s\<lparr>offset := Number 80, index := 1\<rparr>,
           [\<lparr>prevIndex = 0, newIndex = 1, prevTabName = Some ''A'', tabName = Some ''B''\<rparr>])
     \<and> stylez exampleProps (fst (commitReaction exampleProps s)) = Number (- 100)
     \<and> stylez exampleProps s = Number (- 100))"
proof -
  let ?t = "exampleState\<lparr>calculateNextOffset := 1\<rparr>"
  have h1: "calculateNextOffset ?t = 1" by simp
  have h2: "1 \<noteq> index ?t" by (simp add: exampleState_def)
  have h3: "js_nth (scrollY ?t) (index ?t) = Some (Number 120)"
    by (simp add: exampleState_def js_nth_def)
  have h4: "js_nth (scrollY ?t) 1 = Some (Number 40)"
    by (simp add: exampleState_def js_nth_def)
  have h5: "offset ?t = Number 0" by (simp add: exampleState_def)
  have i: "index ?t = 0" by (simp add: exampleState_def)
  have o: "onIndexChange exampleProps" by (simp add: exampleProps_def)
  have n: "js_nth (tabNames ?t) 0 = Some ''A''" "js_nth (tabNames ?t) 1 = Some ''B''"
    by (simp_all add: exampleState_def js_nth_def)
  have z: "stylez exampleProps ?t = Number (- 100)"
    by (simp add: stylez_def exampleProps_def exampleState_def headerScrollDistance_def)
  note t = commit_carries_offset [OF h1 h2 h3 h4 h5, of exampleProps]
  from t have "commitReaction exampleProps ?t =
      (?t\<lparr>offset := Number (0 + (120 - 40)), index := 1\<rparr>,
       if onIndexChange exampleProps
       then [\<lparr>prevIndex = index ?t, newIndex = 1,
              prevTabName = js_nth (tabNames ?t) (index ?t),
              tabName = js_nth (tabNames ?t) 1\<rparr>]
       else [])"
    by blast
  then have c: "commitReaction exampleProps ?t =
      (?t\<lparr>offset := Number 80, index := 1\<rparr>,
       [\<lparr>prevIndex = 0, newIndex = 1, prevTabName = Some ''A'', tabName = Some ''B''\<rparr>])"
    using i o n by simp
  from t have "stylez exampleProps (fst (commitReaction exampleProps ?t)) = stylez exampleProps ?t"
    by blast
  with z have z': "stylez exampleProps (fst (commitReaction exampleProps ?t)) = Number (- 100)"
    by simp
  show ?thesis unfolding Let_def using h1 h2 h3 h4 h5 c z z' by blast
qed

section \<open>The diff-clamp accumulator\<close>

text \<open>
  C2. With a header distance \<open>D \<ge> 0\<close> that no event changes, and the accumulator
  starting at 0: after every sequence of events \<open>accDiffClamp\<close> is a number in
  \<open>[0, D]\<close>, and a pane scroll with diff-clamp enabled replaces it by the sum of the
  accumulator and the delta \<open>accScrollY - oldAccScrollY\<close>, clamped to \<open>[0, D]\<close>.
\<close>

theorem accDiffClamp_bounded:
  assumes "0 \<le> D" and "headerScrollDistance P s = D" and "accDiffClamp s = Number 0"
    and "list_all keepsHeader es"
  shows "(\<exists>v. accDiffClamp (run P es s) = Number v \<and> 0 \<le> v \<and> v \<le> D)
       \<and> (\<forall>w a b v. diffClampEnabled P \<and> w_accScrollY w = Number a \<and> w_oldAccScrollY w = Number b
             \<and> accDiffClamp (run P es s) = Number v \<longrightarrow>
           accDiffClamp (step P (PaneScroll w) (run P es s)) = Number (max 0 (min D (v + (a - b)))))"
proof -
  have c0: "clampedTo D s" using assms(1,3) by (simp add: clampedTo_iff)
  from run_clamped [OF assms(4) assms(2) c0]
  have c: "clampedTo D (run P es s)" and h: "headerScrollDistance P (run P es s) = D"
    by simp_all
  have "accDiffClamp (step P (PaneScroll w) (run P es s)) = Number (max 0 (min D (v + (a - b))))"
    if "diffClampEnabled P" "w_accScrollY w = Number a" "w_oldAccScrollY w = Number b"
       "accDiffClamp (run P es s) = Number v" for w a b v
  proof -
    let ?t = "applyPaneWrite w (run P es s)"
    from c that(4) have v: "0 \<le> v" "v \<le> D" by (auto simp: clampedTo_iff)
    have "headerScrollDistance P ?t = D" using h
      by (simp add: headerScrollDistance_def applyPaneWrite_def)
    moreover have "accDiffClamp ?t = Number v" using that(4) by (simp add: applyPaneWrite_def)
    moreover have "accScrollY ?t = Number a" "oldAccScrollY ?t = Number b"
      using that(2,3) by (simp_all add: applyPaneWrite_def)
    ultimately show ?thesis using that(1) v
      by (simp add: diffClampReaction_update)
  qed
  then show ?thesis using c by (auto simp: clampedTo_iff)
qed

text \<open>
  A scroll down by 30 leaves the accumulator at 30; a further scroll down by 200 stops
  at the header distance 100.
\<close>

theorem accDiffClamp_bounded_witness:
  "(let P = exampleProps\<lparr>diffClampEnabled := True\<rparr>;
        es = [PaneScroll examplePaneWrite, PagerBeginDrag]
    in (0::rat) \<le> 100 \<and> headerScrollDistance P exampleState = 100
     \<and> accDiffClamp exampleState = Number 0 \<and> list_all keepsHeader es
     \<and> (\<exists>v. accDiffClamp (run P es exampleState) = Number v \<and> 0 \<le> v \<and> v \<le> 100)
     \<and> accDiffClamp (run P es exampleState) = Number 30
     \<and> accDiffClamp (step P (PaneScroll (examplePaneWrite\<lparr>w_accScrollY := Number 350,
           w_oldAccScrollY := Number 150\<rparr>)) (run P es exampleState)) = Number 100)"
proof -
  let ?P = "exampleProps\<lparr>diffClampEnabled := True\<rparr>"
  let ?es = "[PaneScroll examplePaneWrite, PagerBeginDrag]"
  let ?w = "examplePaneWrite\<lparr>w_accScrollY := Number 350, w_oldAccScrollY := Number 150\<rparr>"
  have h1: "(0::rat) \<le> 100" by simp
  have h2: "headerScrollDistance ?P exampleState = 100"
    by (simp add: headerScrollDistance_def exampleProps_def exampleState_def)
  have h3: "accDiffClamp exampleState = Number 0" by (simp add: exampleState_def)
  have h4: "list_all keepsHeader ?es" by simp
  have v: "accDiffClamp (run ?P ?es exampleState) = Number 30" by code_simp
  have d: "diffClampEnabled ?P" by simp
  have w: "w_accScrollY ?w = Number 350" "w_oldAccScrollY ?w = Number 150" by simp_all
  note t = accDiffClamp_bounded [OF h1 h2 h3 h4]
  from t have b: "\<exists>v. accDiffClamp (run ?P ?es exampleState) = Number v \<and> 0 \<le> v \<and> v \<le> 100"
    by blast
  from t d w v
  have "accDiffClamp (step ?P (PaneScroll ?w) (run ?P ?es exampleState))
          = Number (max 0 (min 100 (30 + (350 - 150))))"
    by blast
  then have u: "accDiffClamp (step ?P (PaneScroll ?w) (run ?P ?es exampleState)) = Number 100"
    by simp
  show ?thesis unfolding Let_def using h1 h2 h3 h4 b v u by blast
qed

section \<open>The gate of the commands\<close>

text \<open>
  C3, amended. While \<open>isScrolling\<close> is set or \<open>isGliding\<close> is true, \<open>setIndex\<close> and
  \<open>jumpToTab\<close> return \<open>false\<close>, a tab press does nothing, and no shared value changes.
\<close>

theorem commands_rejected_while_scrolling_or_gliding:
  "truthy (isScrolling s) \<or> isGliding s \<Longrightarrow>
     setIndex i s = (False, s, []) \<and> jumpToTab name s = (False, s, [])
       \<and> onTabPress n s = (s, [])"
  by (auto simp: setIndex_def jumpToTab_def onTabPress_def)

text \<open>
  During a glide both commands are refused.
\<close>

theorem commands_rejected_witness:
  "(let s = exampleState\<lparr>isGliding := True\<rparr>
    in (truthy (isScrolling s) \<or> isGliding s)
     \<and> setIndex 1 s = (False, s, []) \<and> jumpToTab ''B'' s = (False, s, [])
     \<and> onTabPress (Some ''B'') s = (s, []))"
proof -
  let ?t = "exampleState\<lparr>isGliding := True\<rparr>"
  have h: "truthy (isScrolling ?t) \<or> isGliding ?t" by simp
  from commands_rejected_while_scrolling_or_gliding [OF h, of 1 "''B''" "Some ''B''"] h
  show ?thesis unfolding Let_def by blast
qed

text \<open>
  C3 as stated fails: \<open>isSwiping\<close> is not part of the gate. While swiping, with no pane
  scrolling or gliding, \<open>jumpToTab\<close> and \<open>setIndex\<close> return \<open>true\<close> and the commit moves the
  index from 0 to 1.
\<close>

theorem commands_while_swiping_counterexample:
  "isSwiping (exampleState\<lparr>isSwiping := True\<rparr>)
   \<and> fst (jumpToTab ''B'' (exampleState\<lparr>isSwiping := True\<rparr>)) = True
   \<and> fst (setIndex 1 (exampleState\<lparr>isSwiping := True\<rparr>)) = True
   \<and> index (exampleState\<lparr>isSwiping := True\<rparr>) = 0
   \<and> index (step exampleProps (JumpToTab ''B'') (exampleState\<lparr>isSwiping := True\<rparr>)) = 1"
  by (simp add: exampleState_def jumpToTab_def setIndex_def onTabPress_def findIndex_def
      commitReaction_def Let_def)

section \<open>The range of the index\<close>

text \<open>
  C4, amended. For a container constructed on a non-empty list of tab names, with no
  initial tab name or one of the list, the index is a pane of the list after every
  sequence of events that name panes: pager positions that round to a pane, tab
  presses and \<open>jumpToTab\<close> with a name of the list, \<open>setIndex\<close> with an index of the
  list (commands refused by the gate are free). And when a render has fewer tab names
  than the index, these names being the first of the distinct names of the shared
  value, and no pane is scrolling or gliding, the recovery and its commit put the index
  on the last of them.
\<close>

theorem activeIndex_valid:
  "(Container P children names = Inr s0 \<and> names \<noteq> []
      \<and> (\<not> truthy_name (initialTabName P) \<or> (\<exists>n \<in> set names. initialTabName P = Some n))
      \<and> allNamePanes P s0 es \<longrightarrow>
        0 \<le> index (run P es s0) \<and> index (run P es s0) < int (length names))
   \<and> (int (length names) \<le> index s \<and> names \<noteq> [] \<and> \<not> gated s
      \<and> take (length names) (tabNames s) = names \<and> distinct (tabNames s) \<longrightarrow>
        index (fst (commitReaction P (fst (recover names s)))) = int (length names) - 1)"
proof (intro conjI impI)
  assume a: "Container P children names = Inr s0 \<and> names \<noteq> []
      \<and> (\<not> truthy_name (initialTabName P) \<or> (\<exists>n \<in> set names. initialTabName P = Some n))
      \<and> allNamePanes P s0 es"
  then have "settled s0 \<and> tabNames s0 = names"
    using Container_settled [of P children names s0] by blast
  with a run_settled [of s0 P es] have "settled (run P es s0)" "tabNames (run P es s0) = names"
    by simp_all
  then show "0 \<le> index (run P es s0)" "index (run P es s0) < int (length names)"
    by (simp_all add: settled_def validIndex_def)
next
  assume "int (length names) \<le> index s \<and> names \<noteq> [] \<and> \<not> gated s
      \<and> take (length names) (tabNames s) = names \<and> distinct (tabNames s)"
  then show "index (fst (commitReaction P (fst (recover names s)))) = int (length names) - 1"
    using recover_last [of names s P] by blast
qed

text \<open>
  A container that starts on its second pane and is then pressed, swiped, commanded and
  scrolled; and a container on pane 2 whose render has only two tab names left.
\<close>

theorem activeIndex_valid_witness:
  "(let P = exampleProps\<lparr>initialTabName := Some ''B''\<rparr>;
        cs = [Element ''A'', Element ''B''];
        names = [''A'', ''B''];
        s0 = projr (Container P cs names);
        es = [SetContainerRef True, TabPress ''A'', PagerBeginDrag, PagerScroll 310,
              PagerMomentumEnd, SetIndex 1, PaneScroll examplePaneWrite, JumpToTab ''A'']
    in Container P cs names = Inr s0 \<and> names \<noteq> []
       \<and> (\<exists>n \<in> set names. initialTabName P = Some n) \<and> allNamePanes P s0 es
       \<and> index s0 = 1
       \<and> 0 \<le> index (run P es s0) \<and> index (run P es s0) < int (length names))
   \<and> (let s = exampleState\<lparr>tabNames := [''A'', ''B'', ''C''], index := 2, calculateNextOffset := 2\<rparr>;
          names = [''A'', ''B'']
      in int (length names) \<le> index s \<and> names \<noteq> [] \<and> \<not> gated s
       \<and> take (length names) (tabNames s) = names \<and> distinct (tabNames s)
       \<and> index (fst (commitReaction exampleProps (fst (recover names s)))) = 1)"
proof -
  let ?P = "exampleProps\<lparr>initialTabName := Some ''B''\<rparr>"
  let ?cs = "[Element ''A'', Element ''B'']"
  let ?names = "[''A'', ''B'']"
  let ?init = "projr (Container ?P ?cs ?names)"
  let ?es = "[SetContainerRef True, TabPress ''A'', PagerBeginDrag, PagerScroll 310,
              PagerMomentumEnd, SetIndex 1, PaneScroll examplePaneWrite, JumpToTab ''A'']"
  let ?s = "exampleState\<lparr>tabNames := [''A'', ''B'', ''C''], index := 2, calculateNextOffset := 2\<rparr>"
  have c: "Container ?P ?cs ?names = Inr ?init"
    by (simp add: Container_def init_def Let_def)
  have n: "?names \<noteq> []" by simp
  have i: "\<exists>n \<in> set ?names. initialTabName ?P = Some n"
    by (simp add: exampleProps_def)
  have a: "allNamePanes ?P ?init ?es" by code_simp
  have i1: "index ?init = 1" by code_simp
  have r: "int (length ?names) \<le> index ?s \<and> ?names \<noteq> [] \<and> \<not> gated ?s
      \<and> take (length ?names) (tabNames ?s) = ?names \<and> distinct (tabNames ?s)"
    by (simp add: exampleState_def gated_def)
  note t = activeIndex_valid [of ?P ?cs ?names ?init ?es]
  note t' = activeIndex_valid [where P = exampleProps and names = ?names and s = ?s]
  from t c n i a have p1: "0 \<le> index (run ?P ?es ?init) \<and> index (run ?P ?es ?init) < int (length ?names)"
    by blast
  from t' r have "index (fst (commitReaction exampleProps (fst (recover ?names ?s)))) = int (length ?names) - 1"
    by blast
  then have p2: "index (fst (commitReaction exampleProps (fst (recover ?names ?s)))) = 1"
    by simp
  show ?thesis unfolding Let_def using c n i a i1 r p1 p2 by blast
qed

text \<open>
  C4 as stated fails: an initial tab name that is not in the list gives the index \<open>-1\<close>;
  and while a pane glides, the recovery leaves the index 1 where only one tab name is
  left.
\<close>

theorem activeIndex_counterexample:
  "index (projr (Container (exampleProps\<lparr>initialTabName := Some ''Z''\<rparr>)
                   [Element ''A'', Element ''B''] [''A'', ''B''])) = - 1
   \<and> index (fst (commitReaction exampleProps
        (fst (recover [''A'']
           (exampleState\<lparr>index := 1, calculateNextOffset := 1, isGliding := True\<rparr>))))) = 1"
  by (simp add: Container_def init_def exampleProps_def exampleState_def findIndex_def
      recover_def onTabPress_def commitReaction_def Let_def)

section \<open>The header\<close>

text \<open>
  C5, amended. The header distance is \<open>headerHeight - minHeaderHeight\<close> when the header
  height is known and 0 when it is not; nothing clamps it, and it is non-negative
  exactly when a known header height is at least \<open>minHeaderHeight\<close>.
\<close>

theorem headerScrollDistance_unclamped:
  "headerScrollDistance P s = (case headerHeight s of Some h \<Rightarrow> h - minHeaderHeight P | None \<Rightarrow> 0)
   \<and> (0 \<le> headerScrollDistance P s \<longleftrightarrow> (\<forall>h. headerHeight s = Some h \<longrightarrow> minHeaderHeight P \<le> h))"
  by (auto simp: headerScrollDistance_def split: option.splits)

text \<open>
  A header of height 100 with minimum 0.
\<close>

theorem headerScrollDistance_witness:
  "headerHeight exampleState = Some 100 \<and> minHeaderHeight exampleProps \<le> 100
   \<and> headerScrollDistance exampleProps exampleState = 100
   \<and> 0 \<le> headerScrollDistance exampleProps exampleState"
  using headerScrollDistance_unclamped [of exampleProps exampleState]
  by (simp add: exampleProps_def exampleState_def)

text \<open>
  C5 as stated fails: a header of height 100 with a minimum height of 150 has the
  distance \<open>-50\<close>.
\<close>

theorem headerScrollDistance_counterexample:
  "headerHeight exampleState = Some 100
   \<and> minHeaderHeight (exampleProps\<lparr>minHeaderHeight := 150\<rparr>) = 150
   \<and> headerScrollDistance (exampleProps\<lparr>minHeaderHeight := 150\<rparr>) exampleState = - 50
   \<and> \<not> 0 \<le> headerScrollDistance (exampleProps\<lparr>minHeaderHeight := 150\<rparr>) exampleState"
  by (simp add: headerScrollDistance_def exampleState_def)

text \<open>
  C6, amended. Without diff-clamp the header's translation is
  \<open>-min(scrollYCurrent, distance)\<close>: the shared value \<open>scrollYCurrent\<close> is what it reads,
  so it is \<open>-min\<close> of the active pane's stored offset and the distance in the states
  where \<open>scrollYCurrent\<close> holds that offset. It does not depend on the accumulator.
  With diff-clamp it is \<open>-accDiffClamp\<close> and does not depend on the current scroll
  offset or the header's height. The flag \<open>diffClampEnabled\<close> alone selects the mode.
  In both modes the translation is the same before and after a commit, and before and
  after every event other than a pane scroll or a header layout.
\<close>

theorem header_translation_modes:
  "(\<not> diffClampEnabled P \<longrightarrow>
      stylez P s = num_neg (Math_min (scrollYCurrent s) (Number (headerScrollDistance P s)))
      \<and> (\<forall>y. scrollYCurrent s = Number y \<longrightarrow>
            stylez P s = Number (- min y (headerScrollDistance P s)))
      \<and> (\<forall>y. js_nth (scrollY s) (index s) = Some (Number y) \<and> scrollYCurrent s = Number y \<longrightarrow>
            stylez P s = Number (- min y (headerScrollDistance P s)))
      \<and> stylez P (s\<lparr>accDiffClamp := c'\<rparr>) = stylez P s)
   \<and> (diffClampEnabled P \<longrightarrow>
      stylez P s = num_neg (accDiffClamp s)
      \<and> (\<forall>c. accDiffClamp s = Number c \<longrightarrow> stylez P s = Number (- c))
      \<and> stylez P (s\<lparr>scrollYCurrent := y', headerHeight := h'\<rparr>) = stylez P s)
   \<and> (leavesScroll e \<longrightarrow> stylez P (step P e s) = stylez P s)
   \<and> stylez P (fst (commitReaction P s)) = stylez P s"
proof -
  have m: "(\<not> diffClampEnabled P \<longrightarrow>
      stylez P s = num_neg (Math_min (scrollYCurrent s) (Number (headerScrollDistance P s)))
      \<and> (\<forall>y. scrollYCurrent s = Number y \<longrightarrow>
            stylez P s = Number (- min y (headerScrollDistance P s)))
      \<and> (\<forall>y. js_nth (scrollY s) (index s) = Some (Number y) \<and> scrollYCurrent s = Number y \<longrightarrow>
            stylez P s = Number (- min y (headerScrollDistance P s)))
      \<and> stylez P (s\<lparr>accDiffClamp := c'\<rparr>) = stylez P s)
   \<and> (diffClampEnabled P \<longrightarrow>
      stylez P s = num_neg (accDiffClamp s)
      \<and> (\<forall>c. accDiffClamp s = Number c \<longrightarrow> stylez P s = Number (- c))
      \<and> stylez P (s\<lparr>scrollYCurrent := y', headerHeight := h'\<rparr>) = stylez P s)"
    by (simp add: stylez_def headerScrollDistance_def)
  have e: "stylez P (step P e s) = stylez P s" if "leavesScroll e"
    using step_leavesScroll [OF that, of P s] by (intro stylez_cong)
  have c: "stylez P (fst (commitReaction P s)) = stylez P s"
    by (rule stylez_cong) simp_all
  from m e c show ?thesis by blast
qed

text \<open>
  Pane \<open>A\<close> focused and scrolled to 120 under a header distance of 100: \<open>-100\<close> in
  direct mode, whatever the accumulator, also after \<open>jumpToTab\<close> to pane \<open>B\<close>; with
  diff-clamp and the accumulator at 7: \<open>-7\<close>.
\<close>

theorem header_translation_modes_witness:
  "\<not> diffClampEnabled exampleProps
   \<and> index exampleState = 0
   \<and> js_nth (scrollY exampleState) 0 = Some (Number 120)
   \<and> scrollYCurrent exampleState = Number 120
   \<and> stylez exampleProps exampleState = Number (- 100)
   \<and> stylez exampleProps (exampleState\<lparr>accDiffClamp := Number 7\<rparr>) = Number (- 100)
   \<and> leavesScroll (JumpToTab ''B'')
   \<and> stylez exampleProps (step exampleProps (JumpToTab ''B'') exampleState) = Number (- 100)
   \<and> diffClampEnabled (exampleProps\<lparr>diffClampEnabled := True\<rparr>)
   \<and> accDiffClamp (exampleState\<lparr>accDiffClamp := Number 7\<rparr>) = Number 7
   \<and> stylez (exampleProps\<lparr>diffClampEnabled := True\<rparr>) (exampleState\<lparr>accDiffClamp := Number 7\<rparr>)
       = Number (- 7)"
proof -
  have d: "\<not> diffClampEnabled exampleProps" by (simp add: exampleProps_def)
  have i: "index exampleState = 0" by (simp add: exampleState_def)
  have a: "js_nth (scrollY exampleState) 0 = Some (Number 120)"
    by (simp add: exampleState_def js_nth_def)
  have y: "scrollYCurrent exampleState = Number 120" by (simp add: exampleState_def)
  have h: "headerScrollDistance exampleProps exampleState = 100"
    by (simp add: headerScrollDistance_def exampleProps_def exampleState_def)
  have l: "leavesScroll (JumpToTab ''B'')" by simp
  have e: "diffClampEnabled (exampleProps\<lparr>diffClampEnabled := True\<rparr>)" by simp
  have c: "accDiffClamp (exampleState\<lparr>accDiffClamp := Number 7\<rparr>) = Number 7" by simp
  note t = header_translation_modes [of exampleProps exampleState "Number 7" _ _ "JumpToTab ''B''"]
  from t d a i y h
  have 1: "stylez exampleProps exampleState = Number (- 100)"
    "stylez exampleProps (exampleState\<lparr>accDiffClamp := Number 7\<rparr>) = Number (- 100)"
    by simp_all
  from t l have "stylez exampleProps (step exampleProps (JumpToTab ''B'') exampleState)
      = stylez exampleProps exampleState" by blast
  with 1(1) have 3: "stylez exampleProps (step exampleProps (JumpToTab ''B'') exampleState)
      = Number (- 100)" by simp
  from header_translation_modes [of "exampleProps\<lparr>diffClampEnabled := True\<rparr>"
      "exampleState\<lparr>accDiffClamp := Number 7\<rparr>"] e c
  have 2: "stylez (exampleProps\<lparr>diffClampEnabled := True\<rparr>)
      (exampleState\<lparr>accDiffClamp := Number 7\<rparr>) = Number (- 7)"
    by blast
  show ?thesis using d i a y l e c 1 2 3 by blast
qed

text \<open>
  C6 as stated fails: the translation does not follow the active pane. After the commit
  from pane \<open>A\<close> (at 120) to pane \<open>B\<close> (at 40) the index is 1 and pane \<open>B\<close> rests at 40,
  yet the translation is \<open>-100\<close>, not \<open>-min(40, 100) = -40\<close>. The same state is reached
  from the first render by a scroll of pane \<open>A\<close> and \<open>jumpToTab\<close>.
\<close>

theorem header_translation_active_pane_counterexample:
  "\<not> diffClampEnabled exampleProps
   \<and> headerScrollDistance exampleProps
        (fst (commitReaction exampleProps (exampleState\<lparr>calculateNextOffset := 1\<rparr>))) = 100
   \<and> index (fst (commitReaction exampleProps (exampleState\<lparr>calculateNextOffset := 1\<rparr>))) = 1
   \<and> js_nth (scrollY (fst (commitReaction exampleProps (exampleState\<lparr>calculateNextOffset := 1\<rparr>))))
        1 = Some (Number 40)
   \<and> stylez exampleProps (fst (commitReaction exampleProps (exampleState\<lparr>calculateNextOffset := 1\<rparr>)))
        = Number (- 100)
   \<and> Number (- min 40 100) \<noteq> Number (- 100)
   \<and> index (run exampleProps
        [PaneScroll (examplePaneWrite\<lparr>w_isScrolling := Number 0\<rparr>), JumpToTab ''B'']
        (projr (Container exampleProps [Element ''A'', Element ''B''] [''A'', ''B'']))) = 1
   \<and> js_nth (scrollY (run exampleProps
        [PaneScroll (examplePaneWrite\<lparr>w_isScrolling := Number 0\<rparr>), JumpToTab ''B'']
        (projr (Container exampleProps [Element ''A'', Element ''B''] [''A'', ''B''])))) 1
        = Some (Number 40)
   \<and> stylez exampleProps (run exampleProps
        [PaneScroll (examplePaneWrite\<lparr>w_isScrolling := Number 0\<rparr>), JumpToTab ''B'']
        (projr (Container exampleProps [Element ''A'', Element ''B''] [''A'', ''B''])))
        = Number (- 100)"
  by code_simp

text \<open>
  C7, amended. With a header distance of 0 that no event changes: in direct mode the
  translation is 0 whenever the current scroll offset is a number that is not negative;
  with diff-clamp, the accumulator starting at 0, the translation is 0 after every
  sequence of events.
\<close>

theorem no_distance_no_translation:
  "(\<not> diffClampEnabled P \<and> headerScrollDistance P s = 0 \<and> list_all keepsHeader es
      \<and> scrollYCurrent (run P es s) = Number y \<and> 0 \<le> y \<longrightarrow>
        stylez P (run P es s) = Number 0)
   \<and> (diffClampEnabled P \<and> headerScrollDistance P s = 0 \<and> accDiffClamp s = Number 0
      \<and> list_all keepsHeader es \<longrightarrow>
        stylez P (run P es s) = Number 0)"
proof -
  have r: "clampedTo 0 (run P es s) \<and> headerScrollDistance P (run P es s) = 0"
    if "headerScrollDistance P s = 0" "list_all keepsHeader es" "clampedTo 0 s" 
    using run_clamped [OF that(2) that(1) that(3)] .
  have h: "headerScrollDistance P (run P es s) = 0"
    if "headerScrollDistance P s = 0" "list_all keepsHeader es"
    using that
  proof (induction es arbitrary: s)
    case Nil
    then show ?case by simp
  next
    case (Cons e es)
    from Cons.prems have k: "keepsHeader e" and ks: "list_all keepsHeader es" by simp_all
    have "headerScrollDistance P (step P e s) = 0"
      using Cons.prems(1) step_keeps(1) [OF k, of P s] by (simp add: headerScrollDistance_def)
    from Cons.IH [OF this ks] show ?case by simp
  qed
  show ?thesis
  proof (intro conjI impI)
    assume a: "\<not> diffClampEnabled P \<and> headerScrollDistance P s = 0 \<and> list_all keepsHeader es
      \<and> scrollYCurrent (run P es s) = Number y \<and> 0 \<le> y"
    with h have "headerScrollDistance P (run P es s) = 0" by simp
    with a show "stylez P (run P es s) = Number 0" by (simp add: stylez_def min_def)
  next
    assume a: "diffClampEnabled P \<and> headerScrollDistance P s = 0 \<and> accDiffClamp s = Number 0
      \<and> list_all keepsHeader es"
    then have "clampedTo 0 s" by (simp add: clampedTo_iff)
    with a r have "clampedTo 0 (run P es s)" by simp
    then have "accDiffClamp (run P es s) = Number 0" by (auto simp: clampedTo_iff)
    with a show "stylez P (run P es s) = Number 0" by (simp add: stylez_def)
  qed
qed

text \<open>
  A header already at its minimum height, and a scroll down by 30, in both modes.
\<close>

theorem no_distance_no_translation_witness:
  "(let P = exampleProps\<lparr>minHeaderHeight := 100\<rparr>; es = [PaneScroll examplePaneWrite]
    in \<not> diffClampEnabled P \<and> headerScrollDistance P exampleState = 0
     \<and> list_all keepsHeader es \<and> scrollYCurrent (run P es exampleState) = Number 150
     \<and> (0::rat) \<le> 150 \<and> stylez P (run P es exampleState) = Number 0)
   \<and> (let P = exampleProps\<lparr>minHeaderHeight := 100, diffClampEnabled := True\<rparr>;
           es = [PaneScroll examplePaneWrite]
       in diffClampEnabled P \<and> headerScrollDistance P exampleState = 0
        \<and> accDiffClamp exampleState = Number 0 \<and> list_all keepsHeader es
        \<and> stylez P (run P es exampleState) = Number 0)"
proof -
  let ?P = "exampleProps\<lparr>minHeaderHeight := 100\<rparr>"
  let ?Q = "exampleProps\<lparr>minHeaderHeight := 100, diffClampEnabled := True\<rparr>"
  let ?es = "[PaneScroll examplePaneWrite]"
  have a1: "\<not> diffClampEnabled ?P" by (simp add: exampleProps_def)
  have a2: "headerScrollDistance ?P exampleState = 0"
    by (simp add: headerScrollDistance_def exampleState_def)
  have a3: "list_all keepsHeader ?es" by simp
  have a4: "scrollYCurrent (run ?P ?es exampleState) = Number 150" by code_simp
  have a5: "(0::rat) \<le> 150" by simp
  have b1: "diffClampEnabled ?Q" by simp
  have b2: "headerScrollDistance ?Q exampleState = 0"
    by (simp add: headerScrollDistance_def exampleState_def)
  have b3: "accDiffClamp exampleState = Number 0" by (simp add: exampleState_def)
  from no_distance_no_translation [of ?P exampleState ?es 150] a1 a2 a3 a4 a5
  have 1: "stylez ?P (run ?P ?es exampleState) = Number 0" by blast
  from no_distance_no_translation [of ?Q exampleState ?es] b1 b2 b3 a3
  have 2: "stylez ?Q (run ?Q ?es exampleState) = Number 0" by blast
  show ?thesis unfolding Let_def using a1 a2 a3 a4 a5 b1 b2 b3 1 2 by blast
qed

text \<open>
  C7 as stated fails in direct mode: with the distance 0 and the pane pulled to the
  offset \<open>-30\<close>, the translation is 30.
\<close>

theorem no_distance_counterexample:
  "\<not> diffClampEnabled (exampleProps\<lparr>minHeaderHeight := 100\<rparr>)
   \<and> headerScrollDistance (exampleProps\<lparr>minHeaderHeight := 100\<rparr>)
        (exampleState\<lparr>scrollYCurrent := Number (- 30)\<rparr>) = 0
   \<and> stylez (exampleProps\<lparr>minHeaderHeight := 100\<rparr>)
        (exampleState\<lparr>scrollYCurrent := Number (- 30)\<rparr>) = Number 30"
  by (simp add: stylez_def headerScrollDistance_def exampleProps_def exampleState_def)

section \<open>Commands on the focused pane\<close>

text \<open>
  C8. \<open>setIndex i\<close>, or a press on the tab of pane \<open>i\<close>, when \<open>i\<close> is the index, the tab
  names are distinct and no pane is scrolling or gliding: the command returns \<open>true\<close>,
  the pane is scrolled to its top through its ref (\<open>scrollTo\<close>, or \<open>scrollToOffset\<close>), the
  pending target becomes \<open>i\<close>, the commit that follows changes nothing and notifies
  nobody, and a second call returns the same and leaves the state as it is.
\<close>

theorem setIndex_same_index:
  assumes "index s = i" and "0 \<le> i" and "i < int (length (tabNames s))"
    and "distinct (tabNames s)" and "\<not> truthy (isScrolling s)" and "\<not> isGliding s"
  shows "(let name = tabNames s ! nat i;
              s' = s\<lparr>calculateNextOffset := i\<rparr>;
              cmds = (case refMap s name of
                        Some ScrollViewRef \<Rightarrow> [PaneScrollTo name 0 0 True]
                      | Some FlatListRef \<Rightarrow> [PaneScrollToOffset name 0 True]
                      | _ \<Rightarrow> [])
          in setIndex i s = (True, s', cmds)
           \<and> onTabPress (Some name) s = (s', cmds)
           \<and> commitReaction P s' = (s', [])
           \<and> setIndex i s' = (True, s', cmds))"
proof -
  let ?name = "tabNames s ! nat i"
  have n: "js_nth (tabNames s) i = Some ?name" using assms(2,3) by (simp add: js_nth_def)
  have fi: "findIndex (\<lambda>n. Some n = Some ?name) (tabNames s) = i"
    using findIndex_nth [OF assms(4) assms(2) assms(3)] n by simp
  have foc: "focusedTab (s\<lparr>calculateNextOffset := i\<rparr>) = Some ?name"
    using n assms(1) by (simp add: focusedTab_def)
  have tp: "onTabPress (Some ?name) s =
      (s\<lparr>calculateNextOffset := i\<rparr>,
       case refMap s ?name of
         Some ScrollViewRef \<Rightarrow> [PaneScrollTo ?name 0 0 True]
       | Some FlatListRef \<Rightarrow> [PaneScrollToOffset ?name 0 True]
       | _ \<Rightarrow> [])"
    using assms(5,6) fi foc
    by (simp add: onTabPress_def Let_def split: option.splits paneRef.splits)
  have tp': "onTabPress (Some ?name) (s\<lparr>calculateNextOffset := i\<rparr>) =
      (s\<lparr>calculateNextOffset := i\<rparr>,
       case refMap s ?name of
         Some ScrollViewRef \<Rightarrow> [PaneScrollTo ?name 0 0 True]
       | Some FlatListRef \<Rightarrow> [PaneScrollToOffset ?name 0 True]
       | _ \<Rightarrow> [])"
    using assms(5,6) fi foc
    by (simp add: onTabPress_def Let_def split: option.splits paneRef.splits)
  have c: "commitReaction P (s\<lparr>calculateNextOffset := i\<rparr>) = (s\<lparr>calculateNextOffset := i\<rparr>, [])"
    using assms(1) by (simp add: commitReaction_def)
  show ?thesis
    using assms(5,6) n tp tp' c by (simp add: setIndex_def Let_def)
qed

text \<open>
  \<open>setIndex 0\<close> on the focused pane \<open>A\<close>, a scroll view.
\<close>

theorem setIndex_same_index_witness:
  "index exampleState = 0 \<and> (0::int) \<le> 0 \<and> 0 < int (length (tabNames exampleState))
   \<and> distinct (tabNames exampleState) \<and> \<not> truthy (isScrolling exampleState)
   \<and> \<not> isGliding exampleState
   \<and> setIndex 0 exampleState = (True, exampleState, [PaneScrollTo ''A'' 0 0 True])
   \<and> onTabPress (Some ''A'') exampleState = (exampleState, [PaneScrollTo ''A'' 0 0 True])
   \<and> commitReaction exampleProps exampleState = (exampleState, [])"
proof -
  have h1: "index exampleState = 0" by (simp add: exampleState_def)
  have h2: "(0::int) \<le> 0" by simp
  have h3: "0 < int (length (tabNames exampleState))" by (simp add: exampleState_def)
  have h4: "distinct (tabNames exampleState)" by (simp add: exampleState_def)
  have h5: "\<not> truthy (isScrolling exampleState)" by (simp add: exampleState_def)
  have h6: "\<not> isGliding exampleState" by (simp add: exampleState_def)
  have n: "tabNames exampleState ! 0 = ''A''" by (simp add: exampleState_def)
  have r: "refMap exampleState ''A'' = Some ScrollViewRef" by (simp add: exampleState_def)
  have c: "exampleState\<lparr>calculateNextOffset := 0\<rparr> = exampleState"
    by (simp add: exampleState_def)
  from setIndex_same_index [OF h1 h2 h3 h4 h5 h6, of exampleProps]
  show ?thesis using h1 h3 h4 h5 h6 by (simp add: Let_def n r c)
qed

section \<open>Children\<close>

text \<open>
  C9. Construction fails with an error, and yields no state, when there is no child or
  when a child is not a React element; it succeeds for every non-empty sequence of
  React elements.
\<close>

theorem construction_fails_loudly:
  "((children = [] \<or> (\<exists>c \<in> set children. \<not> isValidElement c)) \<longrightarrow>
      (\<exists>e. Container P children names = Inl e))
   \<and> ((children \<noteq> [] \<and> (\<forall>c \<in> set children. isValidElement c)) \<longrightarrow>
      (\<exists>s. Container P children names = Inr s))"
proof -
  have "(\<exists>e. Container P children names = Inl e) \<or> (\<exists>s. Container P children names = Inr s)"
    by (cases "Container P children names") auto
  moreover have "\<not> ((\<exists>e. Container P children names = Inl e) \<and> (\<exists>s. Container P children names = Inr s))"
    by auto
  ultimately show ?thesis using Container_Inr [of P children names] by blast
qed

text \<open>
  No child; a text node among the children; two tabs.
\<close>

theorem construction_fails_loudly_witness:
  "(\<exists>e. Container exampleProps [] [] = Inl e)
   \<and> (\<exists>c \<in> set [Element ''A'', NonElement]. \<not> isValidElement c)
   \<and> (\<exists>e. Container exampleProps [Element ''A'', NonElement] [''A''] = Inl e)
   \<and> [Element ''A'', Element ''B''] \<noteq> []
   \<and> isValidElement (Element ''A'') \<and> isValidElement (Element ''B'')
   \<and> (\<exists>s. Container exampleProps [Element ''A'', Element ''B''] [''A'', ''B''] = Inr s)"
proof -
  have 1: "\<exists>e. Container exampleProps [] [] = Inl e"
    using construction_fails_loudly [of "[]" exampleProps "[]"] by blast
  have i: "\<exists>c \<in> set [Element ''A'', NonElement]. \<not> isValidElement c" by simp
  have 2: "\<exists>e. Container exampleProps [Element ''A'', NonElement] [''A''] = Inl e"
    using construction_fails_loudly [of "[Element ''A'', NonElement]" exampleProps "[''A'']"] i
    by blast
  have v: "[Element ''A'', Element ''B''] \<noteq> []"
    "\<forall>c \<in> set [Element ''A'', Element ''B'']. isValidElement c" by simp_all
  have 3: "\<exists>s. Container exampleProps [Element ''A'', Element ''B''] [''A'', ''B''] = Inr s"
    using construction_fails_loudly [of "[Element ''A'', Element ''B'']" exampleProps
        "[''A'', ''B'']"] v by blast
  have e: "isValidElement (Element ''A'')" "isValidElement (Element ''B'')" by simp_all
  show ?thesis using 1 i 2 v(1) e 3 by blast
qed

section \<open>Unknown tab names\<close>

text \<open>
  C10. \<open>jumpToTab\<close> with a name that is not a tab name, while no pane is scrolling or
  gliding, returns \<open>true\<close> and sets the pending target to \<open>-1\<close>; after the commit the index
  is \<open>-1\<close>. When the index was not \<open>-1\<close> already, the commit computes the carry from
  \<open>scrollY[-1]\<close>, which is \<open>undefined\<close>, and the offset accumulator becomes \<open>NaN\<close>.
\<close>

theorem jumpToTab_unknown_name:
  assumes "name \<notin> set (tabNames s)" and "\<not> truthy (isScrolling s)" and "\<not> isGliding s"
  shows "fst (jumpToTab name s) = True
       \<and> calculateNextOffset (fst (snd (jumpToTab name s))) = - 1
       \<and> index (fst (commitReaction P (fst (snd (jumpToTab name s))))) = - 1
       \<and> js_nth (scrollY s) (- 1) = None
       \<and> (index s \<noteq> - 1 \<longrightarrow>
            offset (fst (commitReaction P (fst (snd (jumpToTab name s))))) =
              num_add (num_sub (to_num (js_nth (scrollY s) (index s)))
                               (to_num (js_nth (scrollY s) (- 1))))
                      (offset s)
            \<and> offset (fst (commitReaction P (fst (snd (jumpToTab name s))))) = NaN)"
proof -
  have fi: "findIndex (\<lambda>n. Some n = Some name) (tabNames s) = - 1"
    using assms(1) by (rule findIndex_none)
  have st: "fst (onTabPress (Some name) s) = s\<lparr>calculateNextOffset := - 1\<rparr>"
    using assms(2,3) fi
    by (simp add: onTabPress_def Let_def split: option.splits paneRef.splits)
  have j: "jumpToTab name s = (True, onTabPress (Some name) s)"
    using assms(2,3) by (simp add: jumpToTab_def)
  have n: "js_nth (scrollY s) (- 1) = None" by (simp add: js_nth_def)
  show ?thesis
    using n by (cases "to_num (js_nth (scrollY s) (index s))")
      (simp_all add: j st commitReaction_def Let_def)
qed

text \<open>
  \<open>jumpToTab\<close> with the name \<open>Z\<close> on the panes \<open>A\<close> and \<open>B\<close>.
\<close>

theorem jumpToTab_unknown_name_witness:
  "''Z'' \<notin> set (tabNames exampleState) \<and> \<not> truthy (isScrolling exampleState)
   \<and> \<not> isGliding exampleState \<and> index exampleState \<noteq> - 1
   \<and> fst (jumpToTab ''Z'' exampleState) = True
   \<and> calculateNextOffset (fst (snd (jumpToTab ''Z'' exampleState))) = - 1
   \<and> index (fst (commitReaction exampleProps (fst (snd (jumpToTab ''Z'' exampleState))))) = - 1
   \<and> offset (fst (commitReaction exampleProps (fst (snd (jumpToTab ''Z'' exampleState))))) = NaN"
proof -
  have h1: "''Z'' \<notin> set (tabNames exampleState)" by (simp add: exampleState_def)
  have h2: "\<not> truthy (isScrolling exampleState)" by (simp add: exampleState_def)
  have h3: "\<not> isGliding exampleState" by (simp add: exampleState_def)
  have h4: "index exampleState \<noteq> - 1" by (simp add: exampleState_def)
  from jumpToTab_unknown_name [OF h1 h2 h3, of exampleProps] h1 h2 h3 h4
  show ?thesis by blast
qed

end
